theory Spec2Isabelle
  imports Complex_Main
begin

section \<open>Data model\<close>

text \<open>
  The records follow the object literals of \<^verbatim>\<open>src/pages/Index.tsx\<close> (the
  \<^verbatim>\<open>Index\<close> page and the \<^verbatim>\<open>EmotionDetector\<close> component). JavaScript numbers
  are modelled as \<^typ>\<open>real\<close>: the arithmetic of the detector is taken exactly, without
  the rounding of IEEE doubles, which can differ from it at draws on the boundary of a
  bucket. \<^verbatim>\<open>Date.now()\<close> yields an integer number of
  milliseconds, modelled as \<^typ>\<open>int\<close>. Emotion labels and engagement levels are the
  strings the program stores.
\<close>

record BoundingBox =
  x :: real
  y :: real
  width :: real
  height :: real

record EmotionData =
  emotion :: string
  confidence :: real
  engagement :: string
  timestamp :: int
  boundingBox :: BoundingBox

record StudentData =
  id_student :: string
  name :: string
  currentEmotion :: string
  engagement :: string
  confidence :: real
  boundingBox :: BoundingBox
  lastSeen :: int
  history :: "EmotionData list"

text \<open>
  What one firing of the interval callback reads from the page: whether the video and
  canvas references and both 2d contexts are present (the callback returns at once
  otherwise), and the size of the video, which becomes the size of the overlay canvas.
\<close>

record DetectorEnv =
  refs_ready :: bool
  videoWidth :: real
  videoHeight :: real

text \<open>The two pieces of React state of \<^verbatim>\<open>Index\<close> that the detector feeds.\<close>

record IndexState =
  students :: "StudentData list"
  emotionHistory :: "EmotionData list"

section \<open>Template literals: decimal rendering of the loop counter\<close>

definition digit_char :: "nat \<Rightarrow> char" where
  "digit_char d = ''0123456789'' ! d"

fun string_of_nat :: "nat \<Rightarrow> string" where
  "string_of_nat n =
     (if n < 10 then [digit_char n]
      else string_of_nat (n div 10) @ [digit_char (n mod 10)])"

declare string_of_nat.simps [simp del]

section \<open>The detector (\<^verbatim>\<open>detectStudents\<close>)\<close>

definition emotions :: "string list" where
  "emotions = [''happy'', ''neutral'', ''sad'', ''angry'', ''surprised'', ''fearful'', ''disgust'']"

definition weights :: "real list" where
  "weights = [0.4, 0.3, 0.1, 0.05, 0.05, 0.05, 0.05]"

text \<open>
  The inner loop over \<^verbatim>\<open>j\<close>: the first bucket whose weight exceeds what is left of
  the draw gives the label and ends the loop; otherwise the weight is subtracted and the
  loop goes on. When the loop runs out, the variable \<^verbatim>\<open>emotion\<close> (here \<open>emo\<close>) keeps its initial value.
\<close>

function emotion_loop :: "nat \<Rightarrow> real \<Rightarrow> string \<Rightarrow> string" where
  "emotion_loop j random emo =
     (if j < length weights then
        (if random < weights ! j then emotions ! j
         else emotion_loop (Suc j) (random - weights ! j) emo)
      else emo)"
  by pat_completeness auto
termination
  by (relation "measure (\<lambda>(j, random, emo). length weights - j)") auto

declare emotion_loop.simps [simp del]

definition pick_emotion :: "real \<Rightarrow> string" where
  "pick_emotion random = emotion_loop 0 random ''neutral''"

text \<open>
  The body of the outer loop for counter \<^verbatim>\<open>i\<close>. The draws of \<^verbatim>\<open>Math.random()\<close>
  of one firing are numbered in call order: draw 0 decides the number of students, and
  student \<^verbatim>\<open>i\<close> uses the draws \<open>6 * i + 1\<close> to \<open>6 * i + 6\<close> for width, height,
  x, y, emotion and confidence. The \<^verbatim>\<open>i\<close>-th call of \<^verbatim>\<open>Date.now()\<close> gives
  \<^verbatim>\<open>lastSeen\<close>. \<^verbatim>\<open>emotionToEngagement\<close> is imported from a module that is not
  part of the sources at hand and is a parameter. Drawing on the overlay canvas and the
  write-only \<^verbatim>\<open>studentIdsRef\<close> have no effect on the data and are left out.
\<close>

definition student_at ::
  "(string \<Rightarrow> string) \<Rightarrow> DetectorEnv \<Rightarrow> (nat \<Rightarrow> real) \<Rightarrow> (nat \<Rightarrow> int) \<Rightarrow> nat \<Rightarrow> StudentData" where
  "student_at emotionToEngagement env rnd now i =
     (let studentId = ''student-'' @ string_of_nat (i + 1);
          boxWidth = 150 + rnd (6 * i + 1) * 100;
          boxHeight = 180 + rnd (6 * i + 2) * 120;
          px = rnd (6 * i + 3) * (videoWidth env - boxWidth);
          py = rnd (6 * i + 4) * (videoHeight env - boxHeight);
          emo = pick_emotion (rnd (6 * i + 5));
          conf = 0.7 + rnd (6 * i + 6) * 0.3;
          eng = emotionToEngagement emo
      in \<lparr>id_student = studentId,
          name = ''Student '' @ string_of_nat (i + 1),
          currentEmotion = emo,
          engagement = eng,
          confidence = conf,
          boundingBox = \<lparr>x = px, y = py, width = boxWidth, height = boxHeight\<rparr>,
          lastSeen = now i,
          history = []\<rparr>)"

text \<open>The outer loop: \<^verbatim>\<open>for (let i = 0; i < numStudents; i++) students.push(...)\<close>.\<close>

function students_loop ::
  "(nat \<Rightarrow> StudentData) \<Rightarrow> nat \<Rightarrow> int \<Rightarrow> StudentData list \<Rightarrow> StudentData list" where
  "students_loop body i numStudents acc =
     (if int i < numStudents then students_loop body (Suc i) numStudents (acc @ [body i])
      else acc)"
  by pat_completeness auto
termination
  by (relation "measure (\<lambda>(body, i, numStudents, acc). nat (numStudents - int i))") auto

declare students_loop.simps [simp del]

text \<open>
  One firing of the interval callback. \<open>None\<close> is the early return, in which
  \<^verbatim>\<open>onStudentsDetected\<close> is not called; \<open>Some\<close> carries the array handed to it.
\<close>

definition detectStudents ::
  "(string \<Rightarrow> string) \<Rightarrow> DetectorEnv \<Rightarrow> (nat \<Rightarrow> real) \<Rightarrow> (nat \<Rightarrow> int) \<Rightarrow> StudentData list option" where
  "detectStudents emotionToEngagement env rnd now =
     (if \<not> refs_ready env then None
      else let numStudents = \<lfloor>rnd 0 * 3\<rfloor> + 1
           in Some (students_loop (student_at emotionToEngagement env rnd now) 0 numStudents []))"

section \<open>The page (\<^verbatim>\<open>Index\<close>)\<close>

definition emotionData_of :: "StudentData \<Rightarrow> int \<Rightarrow> EmotionData" where
  "emotionData_of student t =
     \<lparr>emotion = currentEmotion student,
      confidence = StudentData.confidence student,
      engagement = StudentData.engagement student,
      timestamp = t,
      boundingBox = StudentData.boundingBox student\<rparr>"

text \<open>
  \<^verbatim>\<open>detectedStudents.forEach\<close>: each student queues the update
  \<^verbatim>\<open>prev => [...prev, emotionData]\<close>; the queued updates are applied in order. The
  \<^verbatim>\<open>j\<close>-th call of \<^verbatim>\<open>Date.now()\<close> made by the handler gives the timestamp.
\<close>

fun forEach_append ::
  "StudentData list \<Rightarrow> (nat \<Rightarrow> int) \<Rightarrow> nat \<Rightarrow> EmotionData list \<Rightarrow> EmotionData list" where
  "forEach_append [] now j prev = prev"
| "forEach_append (student # rest) now j prev =
     forEach_append rest now (Suc j) (prev @ [emotionData_of student (now j)])"

definition handleStudentsDetected ::
  "IndexState \<Rightarrow> StudentData list \<Rightarrow> (nat \<Rightarrow> int) \<Rightarrow> IndexState" where
  "handleStudentsDetected st detectedStudents now =
     st\<lparr>students := detectedStudents,
        emotionHistory := forEach_append detectedStudents now 0 (emotionHistory st)\<rparr>"

text \<open>
  One tick: the callback runs and, unless it returned early, hands its array to the
  handler. The clock of the tick is read first by the detector (once per student) and
  then by the handler (once per student).
\<close>

definition tick ::
  "(string \<Rightarrow> string) \<Rightarrow> DetectorEnv \<Rightarrow> (nat \<Rightarrow> real) \<Rightarrow> (nat \<Rightarrow> int) \<Rightarrow> IndexState \<Rightarrow> IndexState" where
  "tick emotionToEngagement env rnd now st =
     (case detectStudents emotionToEngagement env rnd now of
        None \<Rightarrow> st
      | Some detectedStudents \<Rightarrow>
          handleStudentsDetected st detectedStudents (\<lambda>j. now (length detectedStudents + j)))"

definition initial :: IndexState where
  "initial = \<lparr>students = [], emotionHistory = []\<rparr>"

text \<open>A session: the ticks applied one after the other, each with its own inputs.\<close>

fun run ::
  "(string \<Rightarrow> string) \<Rightarrow> (DetectorEnv \<times> (nat \<Rightarrow> real) \<times> (nat \<Rightarrow> int)) list \<Rightarrow> IndexState \<Rightarrow> IndexState" where
  "run emotionToEngagement [] st = st"
| "run emotionToEngagement ((env, rnd, now) # ticks) st =
     run emotionToEngagement ticks (tick emotionToEngagement env rnd now st)"



section \<open>Concrete inputs\<close>

text \<open>All references present, and the 640 by 480 video the component asks for.\<close>

definition env0 :: DetectorEnv where
  "env0 = \<lparr>refs_ready = True, videoWidth = 640, videoHeight = 480\<rparr>"

text \<open>A source of draws in which every call of \<^verbatim>\<open>Math.random()\<close> returns \<open>r\<close>.\<close>

definition rnd_const :: "real \<Rightarrow> nat \<Rightarrow> real" where
  "rnd_const r k = r"

text \<open>A clock that starts at \<open>t\<close> and advances by one millisecond at each reading.\<close>

definition clock_from :: "int \<Rightarrow> nat \<Rightarrow> int" where
  "clock_from t k = t + int k"

text \<open>
  A session of three ticks, two seconds apart: three students are detected, then one,
  then two.
\<close>

definition tick1 :: "DetectorEnv \<times> (nat \<Rightarrow> real) \<times> (nat \<Rightarrow> int)" where
  "tick1 = (env0, rnd_const (9 / 10), clock_from 1000)"

definition tick2 :: "DetectorEnv \<times> (nat \<Rightarrow> real) \<times> (nat \<Rightarrow> int)" where
  "tick2 = (env0, rnd_const 0, clock_from 3000)"

definition tick3 :: "DetectorEnv \<times> (nat \<Rightarrow> real) \<times> (nat \<Rightarrow> int)" where
  "tick3 = (env0, rnd_const (1 / 2), clock_from 5000)"

definition session0 :: "(DetectorEnv \<times> (nat \<Rightarrow> real) \<times> (nat \<Rightarrow> int)) list" where
  "session0 = [tick1, tick2, tick3]"

text \<open>Two ticks with the same draws, hence the same bounding boxes.\<close>

definition tick4 :: "DetectorEnv \<times> (nat \<Rightarrow> real) \<times> (nat \<Rightarrow> int)" where
  "tick4 = (env0, rnd_const (1 / 2), clock_from 1000)"

definition tick5 :: "DetectorEnv \<times> (nat \<Rightarrow> real) \<times> (nat \<Rightarrow> int)" where
  "tick5 = (env0, rnd_const (1 / 2), clock_from 3000)"

text \<open>
  A sample classifier for the parameter \<^verbatim>\<open>emotionToEngagement\<close> of the detector;
  it serves as a concrete input only.
\<close>

definition e2e0 :: "string \<Rightarrow> string" where
  "e2e0 emo = (if emo \<in> {''happy'', ''neutral'', ''surprised''} then ''Attentive'' else ''Distracted'')"

section \<open>Basic facts\<close>

lemma students_loop_map:
  "students_loop body i n acc = acc @ map body [i..<nat n]"
proof (induction body i n acc rule: students_loop.induct)
  case (1 body i numStudents acc)
  show ?case
  proof (cases "int i < numStudents")
    case True
    then have "i < nat numStudents" by simp
    then have "[i..<nat numStudents] = i # [Suc i..<nat numStudents]"
      by (simp add: upt_conv_Cons)
    with True 1 show ?thesis
      by (subst students_loop.simps) simp
  next
    case False
    then have "[i..<nat numStudents] = []" by simp
    with False show ?thesis
      by (subst students_loop.simps) simp
  qed
qed

lemma detectStudents_Some:
  "detectStudents e2e env rnd now = Some ds \<Longrightarrow>
   ds = map (student_at e2e env rnd now) [0..<nat (\<lfloor>rnd 0 * 3\<rfloor> + 1)]"
  by (simp add: detectStudents_def students_loop_map Let_def split: if_splits)

subsection \<open>Decimal rendering is injective\<close>

lemma digit_char_inj:
  "a < 10 \<Longrightarrow> b < 10 \<Longrightarrow> digit_char a = digit_char b \<Longrightarrow> a = b"
proof -
  have d: "distinct ''0123456789''" by simp
  have l: "length ''0123456789'' = 10" by simp
  assume "a < 10" "b < 10" "digit_char a = digit_char b"
  with d l show "a = b"
    unfolding digit_char_def by (metis nth_eq_iff_index_eq)
qed

lemma string_of_nat_nonempty: "string_of_nat n \<noteq> []"
  by (subst string_of_nat.simps) simp

lemma string_of_nat_inj:
  "string_of_nat n = string_of_nat m \<Longrightarrow> n = m"
proof (induction n arbitrary: m rule: string_of_nat.induct)
  case (1 n)
  show ?case
  proof (cases "n < 10")
    case n_small: True
    show ?thesis
    proof (cases "m < 10")
      case True
      from "1.prems" n_small True have "digit_char n = digit_char m"
        by (simp add: string_of_nat.simps[of n] string_of_nat.simps[of m])
      with n_small True show ?thesis by (rule digit_char_inj)
    next
      case False
      from "1.prems" n_small False have "string_of_nat (m div 10) = []"
        by (simp add: string_of_nat.simps[of n] string_of_nat.simps[of m])
      with string_of_nat_nonempty show ?thesis by blast
    qed
  next
    case n_big: False
    show ?thesis
    proof (cases "m < 10")
      case True
      from "1.prems" n_big True have "string_of_nat (n div 10) = []"
        by (simp add: string_of_nat.simps[of n] string_of_nat.simps[of m])
      with string_of_nat_nonempty show ?thesis by blast
    next
      case False
      from "1.prems" n_big False
      have eq: "string_of_nat (n div 10) = string_of_nat (m div 10)"
        and dg: "digit_char (n mod 10) = digit_char (m mod 10)"
        by (simp_all add: string_of_nat.simps[of n] string_of_nat.simps[of m])
      from "1.IH"[OF n_big eq] have q: "n div 10 = m div 10" .
      have "n mod 10 = m mod 10"
        by (rule digit_char_inj[OF _ _ dg]) simp_all
      with q show ?thesis by (metis div_mult_mod_eq)
    qed
  qed
qed

subsection \<open>The emotion loop\<close>

lemma emotion_loop_in:
  "emo \<in> set emotions \<Longrightarrow> emotion_loop j r emo \<in> set emotions"
proof (induction j r emo rule: emotion_loop.induct)
  case (1 j random emo)
  have len: "length weights = length emotions" by (simp add: weights_def emotions_def)
  show ?case
  proof (cases "j < length weights")
    case True
    show ?thesis
    proof (cases "random < weights ! j")
      case hit: True
      from True len have "emotions ! j \<in> set emotions" by simp
      with True hit show ?thesis by (subst emotion_loop.simps) simp
    next
      case miss: False
      with True 1 show ?thesis by (subst emotion_loop.simps) simp
    qed
  next
    case False
    with 1 show ?thesis by (subst emotion_loop.simps) simp
  qed
qed

lemma weights_nonneg: "j < length weights \<Longrightarrow> 0 \<le> weights ! j"
  by (auto simp: weights_def less_Suc_eq numeral_eq_Suc nth_Cons split: nat.splits)

lemma emotion_loop_fallback:
  "sum_list (drop j weights) \<le> r \<Longrightarrow> emotion_loop j r emo = emo"
proof (induction j r emo rule: emotion_loop.induct)
  case (1 j random emo)
  show ?case
  proof (cases "j < length weights")
    case True
    then have d: "drop j weights = weights ! j # drop (Suc j) weights"
      by (simp add: Cons_nth_drop_Suc)
    have "0 \<le> sum_list (drop (Suc j) weights)"
      by (rule sum_list_nonneg) (auto simp: in_set_conv_nth weights_nonneg)
    with d "1.prems" have a: "\<not> random < weights ! j" and b: "sum_list (drop (Suc j) weights) \<le> random - weights ! j"
      by simp_all
    from "1.IH"[OF True a b] True a show ?thesis
      by (subst emotion_loop.simps) simp
  next
    case False
    then show ?thesis by (subst emotion_loop.simps) simp
  qed
qed

subsection \<open>The detector at three concrete draws\<close>

lemma upt_small: "[0..<1] = [0]" "[0..<2] = [0, 1]" "[0..<3] = [0, 1, 2]"
  by (simp_all add: upt_conv_Cons)

lemmas eval_defs = upt_small
  detectStudents_def students_loop_map env0_def rnd_const_def
  student_at_def Let_def string_of_nat.simps digit_char_def pick_emotion_def
  emotion_loop.simps weights_def emotions_def e2e0_def

lemma detect_one:
  "detectStudents e2e0 env0 (rnd_const 0) now =
     Some [\<lparr>id_student = ''student-1'', name = ''Student 1'', currentEmotion = ''happy'',
            engagement = ''Attentive'', confidence = 7 / 10,
            boundingBox = \<lparr>x = 0, y = 0, width = 150, height = 180\<rparr>,
            lastSeen = now 0, history = []\<rparr>]"
  by (simp add: eval_defs)

lemma detect_two:
  "detectStudents e2e0 env0 (rnd_const (1 / 2)) now =
     Some [\<lparr>id_student = ''student-1'', name = ''Student 1'', currentEmotion = ''neutral'',
            engagement = ''Attentive'', confidence = 17 / 20,
            boundingBox = \<lparr>x = 220, y = 120, width = 200, height = 240\<rparr>,
            lastSeen = now 0, history = []\<rparr>,
           \<lparr>id_student = ''student-2'', name = ''Student 2'', currentEmotion = ''neutral'',
            engagement = ''Attentive'', confidence = 17 / 20,
            boundingBox = \<lparr>x = 220, y = 120, width = 200, height = 240\<rparr>,
            lastSeen = now 1, history = []\<rparr>]"
  by (simp add: eval_defs)

lemma detect_three:
  "detectStudents e2e0 env0 (rnd_const (9 / 10)) now =
     Some [\<lparr>id_student = ''student-1'', name = ''Student 1'', currentEmotion = ''fearful'',
            engagement = ''Distracted'', confidence = 97 / 100,
            boundingBox = \<lparr>x = 360, y = 864 / 5, width = 240, height = 288\<rparr>,
            lastSeen = now 0, history = []\<rparr>,
           \<lparr>id_student = ''student-2'', name = ''Student 2'', currentEmotion = ''fearful'',
            engagement = ''Distracted'', confidence = 97 / 100,
            boundingBox = \<lparr>x = 360, y = 864 / 5, width = 240, height = 288\<rparr>,
            lastSeen = now 1, history = []\<rparr>,
           \<lparr>id_student = ''student-3'', name = ''Student 3'', currentEmotion = ''fearful'',
            engagement = ''Distracted'', confidence = 97 / 100,
            boundingBox = \<lparr>x = 360, y = 864 / 5, width = 240, height = 288\<rparr>,
            lastSeen = now 2, history = []\<rparr>]"
  by (simp add: eval_defs)

subsection \<open>What the detector hands over\<close>

lemma detectStudents_mem:
  assumes "detectStudents e2e env rnd now = Some ds" and "s \<in> set ds"
  obtains i where "s = student_at e2e env rnd now i"
  using assms by (auto dest!: detectStudents_Some)

lemma detectStudents_nth:
  assumes "detectStudents e2e env rnd now = Some ds" and "i < length ds"
  shows "ds ! i = student_at e2e env rnd now i"
  using assms by (auto dest!: detectStudents_Some)

lemma student_at_sel [simp]:
  "id_student (student_at e2e env rnd now i) = ''student-'' @ string_of_nat (i + 1)"
  "currentEmotion (student_at e2e env rnd now i) = pick_emotion (rnd (6 * i + 5))"
  "StudentData.confidence (student_at e2e env rnd now i) = 0.7 + rnd (6 * i + 6) * 0.3"
  "StudentData.engagement (student_at e2e env rnd now i) = e2e (pick_emotion (rnd (6 * i + 5)))"
  "lastSeen (student_at e2e env rnd now i) = now i"
  "history (student_at e2e env rnd now i) = []"
  by (simp_all add: student_at_def Let_def)

lemma detectStudents_length:
  "detectStudents e2e env rnd now = Some ds \<Longrightarrow> length ds = nat (\<lfloor>rnd 0 * 3\<rfloor> + 1)"
  by (auto dest!: detectStudents_Some)

lemma detectStudents_ids:
  assumes "detectStudents e2e env rnd now = Some ds"
  shows "map id_student ds = map (\<lambda>i. ''student-'' @ string_of_nat (i + 1)) [0..<length ds]"
  using detectStudents_Some[OF assms] by simp

lemma detectStudents_distinct:
  assumes "detectStudents e2e env rnd now = Some ds"
  shows "distinct (map id_student ds)"
proof -
  have "inj_on (\<lambda>i. ''student-'' @ string_of_nat (i + 1)) (set [0..<length ds])"
    by (rule inj_onI) (auto dest: string_of_nat_inj)
  then have "distinct (map (\<lambda>i. ''student-'' @ string_of_nat (i + 1)) [0..<length ds])"
    by (simp add: distinct_map)
  with detectStudents_ids[OF assms] show ?thesis by simp
qed

lemma detectStudents_history:
  assumes "detectStudents e2e env rnd now = Some ds" and "s \<in> set ds"
  shows "history s = []"
proof -
  from assms obtain i where "s = student_at e2e env rnd now i" by (rule detectStudents_mem)
  then show ?thesis by simp
qed

lemma tick_students:
  "students (tick e2e env rnd now st) =
     (case detectStudents e2e env rnd now of None \<Rightarrow> students st | Some ds \<Rightarrow> ds)"
  by (simp add: tick_def handleStudentsDetected_def split: option.splits)

lemma tick_emotionHistory:
  "emotionHistory (tick e2e env rnd now st) =
     (case detectStudents e2e env rnd now of
        None \<Rightarrow> emotionHistory st
      | Some ds \<Rightarrow> forEach_append ds (\<lambda>j. now (length ds + j)) 0 (emotionHistory st))"
  by (simp add: tick_def handleStudentsDetected_def split: option.splits)

lemma forEach_append_eq:
  "forEach_append ds now j prev =
     prev @ map (\<lambda>k. emotionData_of (ds ! k) (now (j + k))) [0..<length ds]"
proof (induction ds arbitrary: j prev)
  case Nil
  then show ?case by simp
next
  case (Cons s rest)
  have "map (\<lambda>k. emotionData_of ((s # rest) ! k) (now (j + k))) [0..<length (s # rest)] =
        emotionData_of s (now j) # map (\<lambda>k. emotionData_of (rest ! k) (now (Suc j + k))) [0..<length rest]"
    by (simp add: upt_conv_Cons map_Suc_upt[symmetric] del: upt_Suc)
  with Cons.IH[of "Suc j" "prev @ [emotionData_of s (now j)]"] show ?case by simp
qed

lemma run_append:
  "run e2e (ticks @ later) st = run e2e later (run e2e ticks st)"
  by (induction ticks arbitrary: st) auto

lemma run_log_extends:
  "\<exists>new. emotionHistory (run e2e ticks st) = emotionHistory st @ new"
proof (induction ticks arbitrary: st)
  case Nil
  then show ?case by simp
next
  case (Cons t ticks)
  obtain env rnd now where t: "t = (env, rnd, now)" by (cases t)
  have "\<exists>new1. emotionHistory (tick e2e env rnd now st) = emotionHistory st @ new1"
    by (cases "detectStudents e2e env rnd now") (simp_all add: tick_emotionHistory forEach_append_eq)
  then obtain new1 where 1: "emotionHistory (tick e2e env rnd now st) = emotionHistory st @ new1" ..
  from Cons.IH[of "tick e2e env rnd now st"] obtain new2 where
    "emotionHistory (run e2e ticks (tick e2e env rnd now st)) = emotionHistory (tick e2e env rnd now st) @ new2"
    by blast
  with 1 t show ?case by simp
qed

lemma run_ids_distinct:
  "distinct (map id_student (students st)) \<Longrightarrow>
   distinct (map id_student (students (run e2e ticks st)))"
proof (induction ticks arbitrary: st)
  case Nil
  then show ?case by simp
next
  case (Cons t ticks)
  obtain env rnd now where t: "t = (env, rnd, now)" by (cases t)
  have "distinct (map id_student (students (tick e2e env rnd now st)))"
    using Cons.prems by (auto simp: tick_students detectStudents_distinct split: option.splits)
  with Cons.IH t show ?case by simp
qed

lemma run_history_empty:
  "\<forall>s \<in> set (students st). history s = [] \<Longrightarrow>
   \<forall>s \<in> set (students (run e2e ticks st)). history s = []"
proof (induction ticks arbitrary: st)
  case Nil
  then show ?case by simp
next
  case (Cons t ticks)
  obtain env rnd now where t: "t = (env, rnd, now)" by (cases t)
  have "\<forall>s \<in> set (students (tick e2e env rnd now st)). history s = []"
    using Cons.prems by (auto simp: tick_students detectStudents_history split: option.splits)
  with Cons.IH t show ?case by simp
qed

subsection \<open>The three-tick session\<close>

lemma ids_session0:
  "map id_student (students (run e2e0 [tick1] initial)) = [''student-1'', ''student-2'', ''student-3'']"
  "map id_student (students (run e2e0 [tick1, tick2] initial)) = [''student-1'']"
  "map id_student (students (run e2e0 session0 initial)) = [''student-1'', ''student-2'']"
  by (simp_all add: session0_def tick1_def tick2_def tick3_def tick_students
      detect_one detect_two detect_three)

lemma histories_session0:
  "map history (students (run e2e0 session0 initial)) = [[], []]"
  by (simp add: session0_def tick1_def tick2_def tick3_def tick_students
      detect_one detect_two detect_three)

lemma timestamps_session0:
  "map timestamp (emotionHistory (run e2e0 [tick1] initial)) = [1003, 1004, 1005]"
  "map timestamp (emotionHistory (run e2e0 [tick1, tick2] initial)) = [1003, 1004, 1005, 3001]"
  by (simp_all add: tick1_def tick2_def tick_emotionHistory detect_one detect_three initial_def
      emotionData_of_def clock_from_def)

lemma snapshots_same_draws:
  "students (run e2e0 [tick4] initial) = the (detectStudents e2e0 env0 (rnd_const (1 / 2)) (clock_from 1000))"
  "students (run e2e0 [tick4, tick5] initial) = the (detectStudents e2e0 env0 (rnd_const (1 / 2)) (clock_from 3000))"
  by (simp_all add: tick4_def tick5_def tick_students detect_two)

lemma sorted_clock_readings:
  assumes "\<forall>i j. i \<le> j \<longrightarrow> now i \<le> (now j :: int)"
  shows "sorted (map (\<lambda>j. now (n + j)) [0..<m])"
  using assms by (simp add: sorted_map sorted_wrt_iff_nth_less)

subsection \<open>Timestamps of the log\<close>

lemma tick_log_eq:
  "emotionHistory (tick e2e env rnd now st) =
     emotionHistory st @
       (case detectStudents e2e env rnd now of
          None \<Rightarrow> []
        | Some ds \<Rightarrow> map (\<lambda>j. emotionData_of (ds ! j) (now (length ds + j))) [0..<length ds])"
  by (cases "detectStudents e2e env rnd now") (simp_all add: tick_emotionHistory forEach_append_eq)

lemma tick_log_sorted:
  assumes mono: "\<forall>i j. i \<le> j \<longrightarrow> now i \<le> now j"
    and old: "sorted (map timestamp (emotionHistory st))"
    and past: "\<forall>e \<in> set (emotionHistory st). timestamp e \<le> now 0"
  shows "sorted (map timestamp (emotionHistory (tick e2e env rnd now st)))"
proof (cases "detectStudents e2e env rnd now")
  case None
  with old show ?thesis by (simp add: tick_log_eq)
next
  case (Some ds)
  have ts: "map timestamp (map (\<lambda>j. emotionData_of (ds ! j) (now (length ds + j))) [0..<length ds])
             = map (\<lambda>j. now (length ds + j)) [0..<length ds]"
    by (simp add: emotionData_of_def)
  from mono have new: "sorted (map (\<lambda>j. now (length ds + j)) [0..<length ds])"
    by (intro sorted_clock_readings) simp
  have "t \<le> now (length ds + j)" if "t \<in> timestamp ` set (emotionHistory st)" for t j
  proof -
    from that past have "t \<le> now 0" by auto
    also from mono have "now 0 \<le> now (length ds + j)" by simp
    finally show ?thesis .
  qed
  with old new show ?thesis
    unfolding tick_log_eq Some by (auto simp: sorted_append ts simp del: map_map)
qed

lemma run_snoc:
  "run e2e (ticks @ [(env, rnd, now)]) st = tick e2e env rnd now (run e2e ticks st)"
  by (simp add: run_append)

lemma run_log_sorted:
  assumes "\<forall>k < length ticks. case ticks ! k of (env, rnd, now) \<Rightarrow>
             (\<forall>i j. i \<le> j \<longrightarrow> now i \<le> now j)
             \<and> (\<forall>e \<in> set (emotionHistory (run e2e (take k ticks) initial)). timestamp e \<le> now 0)"
  shows "sorted (map timestamp (emotionHistory (run e2e ticks initial)))"
  using assms
proof (induction ticks rule: rev_induct)
  case Nil
  show ?case by (simp add: initial_def)
next
  case (snoc t ticks)
  obtain env rnd now where t: "t = (env, rnd, now)" by (cases t)
  have "\<forall>k < length ticks. case ticks ! k of (env, rnd, now) \<Rightarrow>
             (\<forall>i j. i \<le> j \<longrightarrow> now i \<le> now j)
             \<and> (\<forall>e \<in> set (emotionHistory (run e2e (take k ticks) initial)). timestamp e \<le> now 0)"
  proof (intro allI impI)
    fix k assume k: "k < length ticks"
    with snoc.prems[rule_format, of k] show "case ticks ! k of (env, rnd, now) \<Rightarrow>
             (\<forall>i j. i \<le> j \<longrightarrow> now i \<le> now j)
             \<and> (\<forall>e \<in> set (emotionHistory (run e2e (take k ticks) initial)). timestamp e \<le> now 0)"
      by (simp add: nth_append)
  qed
  then have old: "sorted (map timestamp (emotionHistory (run e2e ticks initial)))"
    by (rule snoc.IH)
  from snoc.prems[rule_format, of "length ticks"] t
  have mono: "\<forall>i j. i \<le> j \<longrightarrow> now i \<le> now j"
    and past: "\<forall>e \<in> set (emotionHistory (run e2e ticks initial)). timestamp e \<le> now 0"
    by simp_all
  from tick_log_sorted[OF mono old past] t show ?case
    by (simp add: run_snoc)
qed

lemma timestamps_backwards:
  "map timestamp (emotionHistory (run e2e0 [tick2, tick1] initial)) = [3001, 1003, 1004, 1005]"
  by (simp add: tick1_def tick2_def tick_emotionHistory detect_one detect_three initial_def
      emotionData_of_def clock_from_def)

lemma timestamps_session0_all:
  "map timestamp (emotionHistory (run e2e0 [] initial)) = []"
  "map timestamp (emotionHistory (run e2e0 session0 initial)) = [1003, 1004, 1005, 3001, 5002, 5003]"
  by (simp_all add: session0_def tick1_def tick2_def tick3_def tick_emotionHistory detect_one detect_two detect_three initial_def
      emotionData_of_def clock_from_def)

section \<open>Emotion labels and confidence of a detection\<close>

text \<open>
  Claim C10. Whatever the draw is, the weighted selection loop ends with a label of the
  seven-element list \<^verbatim>\<open>emotions\<close>; when the draw is at least the sum of the
  weights, so that no bucket is selected, the label is the initial \<^verbatim>\<open>'neutral'\<close>.
  Hence every student of an array handed to \<^verbatim>\<open>onStudentsDetected\<close> carries a
  label of the enumeration.
\<close>

theorem pick_emotion_in_enumeration:
  "pick_emotion r \<in> set emotions
   \<and> (sum_list weights \<le> r \<longrightarrow> pick_emotion r = ''neutral'')
   \<and> (\<forall>ds. detectStudents e2e env rnd now = Some ds \<longrightarrow>
          (\<forall>s \<in> set ds. currentEmotion s \<in> set emotions))"
proof (intro conjI allI impI ballI)
  have neutral: "''neutral'' \<in> set emotions" by (simp add: emotions_def)
  then show "pick_emotion r \<in> set emotions"
    unfolding pick_emotion_def by (rule emotion_loop_in)
  show "pick_emotion r = ''neutral''" if "sum_list weights \<le> r"
    unfolding pick_emotion_def using that by (intro emotion_loop_fallback) simp
  fix ds s
  assume "detectStudents e2e env rnd now = Some ds" and "s \<in> set ds"
  then obtain i where "s = student_at e2e env rnd now i" by (rule detectStudents_mem)
  with neutral show "currentEmotion s \<in> set emotions"
    by (simp add: pick_emotion_def emotion_loop_in)
qed

theorem pick_emotion_in_enumeration_witness:
  "pick_emotion 1 \<in> set emotions \<and> sum_list weights \<le> 1 \<and> pick_emotion 1 = ''neutral''
   \<and> detectStudents e2e0 env0 (rnd_const (9 / 10)) (clock_from 0) \<noteq> None
   \<and> currentEmotion (hd (the (detectStudents e2e0 env0 (rnd_const (9 / 10)) (clock_from 0)))) = ''fearful''
   \<and> ''fearful'' \<in> set emotions"
  using pick_emotion_in_enumeration [of 1 e2e0 env0 "rnd_const (9 / 10)" "clock_from 0"]
  by (auto simp: detect_three weights_def)

text \<open>
  Claim C9. When every draw of \<^verbatim>\<open>Math.random()\<close> lies in \<open>[0, 1)\<close>, the
  confidence \<^verbatim>\<open>0.7 + Math.random() * 0.3\<close> of every emitted detection lies in the
  closed interval \<open>[0, 1]\<close>. The arithmetic is that of the reals.
\<close>

theorem confidence_in_unit_interval:
  assumes "\<forall>k. 0 \<le> rnd k \<and> rnd k < 1"
    and "detectStudents e2e env rnd now = Some ds"
    and "s \<in> set ds"
  shows "0 \<le> StudentData.confidence s \<and> StudentData.confidence s \<le> 1"
proof -
  from assms(2,3) obtain i where s: "s = student_at e2e env rnd now i"
    by (rule detectStudents_mem)
  from assms(1) have "0 \<le> rnd (6 * i + 6)" and "rnd (6 * i + 6) < 1" by simp_all
  then have "0 \<le> 0.7 + rnd (6 * i + 6) * 0.3" and "0.7 + rnd (6 * i + 6) * 0.3 \<le> 1"
    by simp_all
  with s show ?thesis by simp
qed

theorem confidence_in_unit_interval_witness:
  "(\<forall>k. 0 \<le> rnd_const (9 / 10) k \<and> rnd_const (9 / 10) k < 1)
   \<and> detectStudents e2e0 env0 (rnd_const (9 / 10)) (clock_from 0) \<noteq> None
   \<and> StudentData.confidence (hd (the (detectStudents e2e0 env0 (rnd_const (9 / 10)) (clock_from 0)))) = 97 / 100
   \<and> (0::real) \<le> 97 / 100 \<and> (97 / 100 :: real) \<le> 1"
  using confidence_in_unit_interval [of "rnd_const (9 / 10)" e2e0 env0 "clock_from 0"
      "the (detectStudents e2e0 env0 (rnd_const (9 / 10)) (clock_from 0))"
      "hd (the (detectStudents e2e0 env0 (rnd_const (9 / 10)) (clock_from 0)))"]
  by (simp add: detect_three rnd_const_def)

section \<open>Invariants of the snapshots\<close>

text \<open>
  Claim C8. In every snapshot of \<^verbatim>\<open>students\<close>, after any number of ticks from the
  initial state, the ids are pairwise distinct: the snapshot is the array of the last
  tick that delivered one, whose ids are \<^verbatim>\<open>student-1\<close>, \<^verbatim>\<open>student-2\<close>, ...
  in loop order, and the decimal rendering of the counter is injective.
\<close>

theorem snapshot_ids_distinct:
  "distinct (map id_student (students (run e2e ticks initial)))"
  by (rule run_ids_distinct) (simp add: initial_def)

theorem snapshot_ids_distinct_witness:
  "map id_student (students (run e2e0 session0 initial)) = [''student-1'', ''student-2'']
   \<and> distinct [''student-1'', ''student-2'']"
  using snapshot_ids_distinct [of e2e0 session0] by (simp add: ids_session0)

text \<open>
  Claim C4. In every snapshot, after any number of ticks, the history of every student
  is no longer than the retention cap, whatever the cap is: the detector creates every
  student with an empty history and nothing ever appends to it.
\<close>

theorem history_length_bounded:
  "\<forall>s \<in> set (students (run e2e ticks initial)). length (history s) \<le> cap"
  using run_history_empty [of initial e2e ticks] by (simp add: initial_def)

theorem history_length_bounded_witness:
  "map history (students (run e2e0 session0 initial)) = [[], []]
   \<and> length (history (hd (students (run e2e0 session0 initial)))) \<le> 50"
proof -
  have "students (run e2e0 session0 initial) \<noteq> []"
    using ids_session0(3) by auto
  then have "hd (students (run e2e0 session0 initial)) \<in> set (students (run e2e0 session0 initial))"
    by simp
  with history_length_bounded [of e2e0 session0 50]
  have "length (history (hd (students (run e2e0 session0 initial)))) \<le> 50"
    by blast
  then show ?thesis by (simp add: histories_session0)
qed

section \<open>The session-wide emotion history\<close>

text \<open>
  Claim C5, as stated, fails. The timestamps of the log are the readings of
  \<^verbatim>\<open>Date.now()\<close>, the wall clock, and nothing orders them: when the clock is set
  back between two ticks, from 3000 to 1000 here, the later samples carry the earlier
  timestamps and the log is not sorted by timestamp.
\<close>

theorem emotionHistory_sorted_counterexample:
  "map timestamp (emotionHistory (run e2e0 [tick2, tick1] initial)) = [3001, 1003, 1004, 1005]
   \<and> \<not> sorted (map timestamp (emotionHistory (run e2e0 [tick2, tick1] initial)))"
  unfolding timestamps_backwards by simp

text \<open>
  Claim C5, amended. The emotion history of the page is append-only. A tick leaves the
  old log in place as a prefix and appends one sample per detected student, in order,
  each stamped with the reading of the clock taken for it (nothing when the callback
  returns early); over any number of ticks the earlier log stays a prefix of the later
  one. The timestamps are non-decreasing in append order provided the clock does not
  go back: for one tick, when its readings never decrease, the log is sorted and none
  of its entries is later than the first reading of the tick; for a whole session from
  the initial state, when this holds of the readings of every tick and of the log
  found by every tick.
\<close>

theorem emotionHistory_append_only:
  "emotionHistory (tick e2e env rnd now st) =
     emotionHistory st @
       (case detectStudents e2e env rnd now of
          None \<Rightarrow> []
        | Some ds \<Rightarrow> map (\<lambda>j. emotionData_of (ds ! j) (now (length ds + j))) [0..<length ds])
   \<and> (\<exists>new. emotionHistory (run e2e ticks st) = emotionHistory st @ new)
   \<and> ((\<forall>i j. i \<le> j \<longrightarrow> now i \<le> now j)
        \<and> sorted (map timestamp (emotionHistory st))
        \<and> (\<forall>e \<in> set (emotionHistory st). timestamp e \<le> now 0)
      \<longrightarrow> sorted (map timestamp (emotionHistory (tick e2e env rnd now st))))
   \<and> ((\<forall>k < length ticks. case ticks ! k of (env, rnd, now) \<Rightarrow>
           (\<forall>i j. i \<le> j \<longrightarrow> now i \<le> now j)
           \<and> (\<forall>e \<in> set (emotionHistory (run e2e (take k ticks) initial)). timestamp e \<le> now 0))
      \<longrightarrow> sorted (map timestamp (emotionHistory (run e2e ticks initial))))"
proof (intro conjI impI)
  show "emotionHistory (tick e2e env rnd now st) =
     emotionHistory st @
       (case detectStudents e2e env rnd now of
          None \<Rightarrow> []
        | Some ds \<Rightarrow> map (\<lambda>j. emotionData_of (ds ! j) (now (length ds + j))) [0..<length ds])"
    by (rule tick_log_eq)
  show "\<exists>new. emotionHistory (run e2e ticks st) = emotionHistory st @ new"
    by (rule run_log_extends)
  show "sorted (map timestamp (emotionHistory (tick e2e env rnd now st)))"
    if "(\<forall>i j. i \<le> j \<longrightarrow> now i \<le> now j)
        \<and> sorted (map timestamp (emotionHistory st))
        \<and> (\<forall>e \<in> set (emotionHistory st). timestamp e \<le> now 0)"
    using that by (intro tick_log_sorted) simp_all
  show "sorted (map timestamp (emotionHistory (run e2e ticks initial)))"
    if "\<forall>k < length ticks. case ticks ! k of (env, rnd, now) \<Rightarrow>
           (\<forall>i j. i \<le> j \<longrightarrow> now i \<le> now j)
           \<and> (\<forall>e \<in> set (emotionHistory (run e2e (take k ticks) initial)). timestamp e \<le> now 0)"
    using that by (rule run_log_sorted)
qed

theorem emotionHistory_append_only_witness:
  "map timestamp (emotionHistory (run e2e0 session0 initial)) = [1003, 1004, 1005, 3001, 5002, 5003]
   \<and> sorted [1003, 1004, 1005, 3001, 5002, 5003 :: int]
   \<and> map timestamp (emotionHistory (tick e2e0 env0 (rnd_const 0) (clock_from 3000)
        (run e2e0 [tick1] initial))) = [1003, 1004, 1005, 3001]"
proof -
  let ?st = "run e2e0 [tick1] initial"
  have mono: "\<forall>i j. i \<le> j \<longrightarrow> clock_from t i \<le> clock_from t j" for t
    by (simp add: clock_from_def)
  have p0: "\<forall>e \<in> set (emotionHistory (run e2e0 [] initial)). timestamp e \<le> clock_from 1000 0"
    by (simp add: initial_def)
  have "\<forall>t \<in> set (map timestamp (emotionHistory (run e2e0 [tick1] initial))). t \<le> clock_from 3000 0"
    unfolding timestamps_session0 by (simp add: clock_from_def)
  then have p1: "\<forall>e \<in> set (emotionHistory (run e2e0 [tick1] initial)). timestamp e \<le> clock_from 3000 0"
    by simp
  have "\<forall>t \<in> set (map timestamp (emotionHistory (run e2e0 [tick1, tick2] initial))). t \<le> clock_from 5000 0"
    unfolding timestamps_session0 by (simp add: clock_from_def)
  then have p2: "\<forall>e \<in> set (emotionHistory (run e2e0 [tick1, tick2] initial)). timestamp e \<le> clock_from 5000 0"
    by simp
  have hyp: "\<forall>k < length session0. case session0 ! k of (env, rnd, now) \<Rightarrow>
           (\<forall>i j. i \<le> j \<longrightarrow> now i \<le> now j)
           \<and> (\<forall>e \<in> set (emotionHistory (run e2e0 (take k session0) initial)). timestamp e \<le> now 0)"
  proof (intro allI impI)
    fix k assume "k < length session0"
    then consider "k = 0" | "k = 1" | "k = 2"
      by (auto simp: session0_def less_Suc_eq numeral_3_eq_3 numeral_2_eq_2)
    then show "case session0 ! k of (env, rnd, now) \<Rightarrow>
           (\<forall>i j. i \<le> j \<longrightarrow> now i \<le> now j)
           \<and> (\<forall>e \<in> set (emotionHistory (run e2e0 (take k session0) initial)). timestamp e \<le> now 0)"
    proof cases
      case 1
      with mono[of 1000] p0 show ?thesis by (simp add: session0_def tick1_def)
    next
      case 2
      have "take 1 session0 = [tick1]" by (simp add: session0_def)
      with 2 mono[of 3000] p1 show ?thesis by (simp add: session0_def tick2_def)
    next
      case 3
      have "take 2 session0 = [tick1, tick2]" by (simp add: session0_def)
      with 3 mono[of 5000] p2 show ?thesis by (simp add: session0_def tick3_def)
    qed
  qed
  have old: "sorted (map timestamp (emotionHistory ?st))"
    unfolding timestamps_session0 by simp
  note inst = emotionHistory_append_only [of e2e0 env0 "rnd_const 0" "clock_from 3000" ?st session0]
  from inst hyp have srt: "sorted (map timestamp (emotionHistory (run e2e0 session0 initial)))"
    by blast
  from inst have eq: "emotionHistory (tick e2e0 env0 (rnd_const 0) (clock_from 3000) ?st) =
     emotionHistory ?st @
       (case detectStudents e2e0 env0 (rnd_const 0) (clock_from 3000) of
          None \<Rightarrow> []
        | Some ds \<Rightarrow> map (\<lambda>j. emotionData_of (ds ! j) (clock_from 3000 (length ds + j))) [0..<length ds])"
    by blast
  have "map timestamp (emotionHistory (tick e2e0 env0 (rnd_const 0) (clock_from 3000) ?st))
        = [1003, 1004, 1005, 3001]"
    unfolding eq map_append timestamps_session0
    by (simp add: detect_one emotionData_of_def clock_from_def)
  with srt show ?thesis by (simp add: timestamps_session0_all)
qed

section \<open>Identity of subjects across ticks\<close>

text \<open>
  Claim C1, as stated, fails. Two consecutive ticks with the same draws give the first
  student the same bounding box and the same id, yet the length of its history is 0 in
  both ticks: it does not increase by 1.
\<close>

theorem identity_continuity_counterexample:
  "StudentData.boundingBox (students (run e2e0 [tick4, tick5] initial) ! 0) =
     StudentData.boundingBox (students (run e2e0 [tick4] initial) ! 0)
   \<and> id_student (students (run e2e0 [tick4, tick5] initial) ! 0) =
       id_student (students (run e2e0 [tick4] initial) ! 0)
   \<and> length (history (students (run e2e0 [tick4, tick5] initial) ! 0)) \<noteq>
       length (history (students (run e2e0 [tick4] initial) ! 0)) + 1"
  unfolding snapshots_same_draws by (simp add: detect_two)

text \<open>
  Claim C1, amended. The detector consults no distance threshold: the id of a detection
  is \<^verbatim>\<open>student-\<close> followed by its loop position plus one. So for every position
  present in two consecutive ticks the id is the same in both, whatever the two
  bounding boxes are; the history of the subject is empty in both ticks (its length
  stays 0); and the snapshot after the second tick is exactly the array of that tick,
  so no further subject is created.
\<close>

theorem id_by_loop_index:
  assumes "detectStudents e2e env1 rnd1 now1 = Some ds1"
    and "detectStudents e2e env2 rnd2 now2 = Some ds2"
    and "i < length ds1" and "i < length ds2"
  shows "id_student (ds2 ! i) = id_student (ds1 ! i)
       \<and> id_student (ds2 ! i) = ''student-'' @ string_of_nat (i + 1)
       \<and> length (history (ds1 ! i)) = 0
       \<and> length (history (ds2 ! i)) = 0
       \<and> students (tick e2e env2 rnd2 now2 (tick e2e env1 rnd1 now1 st)) = ds2"
  using assms by (simp add: detectStudents_nth tick_students)

theorem id_by_loop_index_witness:
  "id_student (the (detectStudents e2e0 env0 (rnd_const 0) (clock_from 3000)) ! 0) = ''student-1''
   \<and> id_student (the (detectStudents e2e0 env0 (rnd_const (9 / 10)) (clock_from 1000)) ! 0) = ''student-1''
   \<and> StudentData.boundingBox (the (detectStudents e2e0 env0 (rnd_const 0) (clock_from 3000)) ! 0) \<noteq>
       StudentData.boundingBox (the (detectStudents e2e0 env0 (rnd_const (9 / 10)) (clock_from 1000)) ! 0)
   \<and> students (tick e2e0 env0 (rnd_const 0) (clock_from 3000)
        (tick e2e0 env0 (rnd_const (9 / 10)) (clock_from 1000) initial)) =
       the (detectStudents e2e0 env0 (rnd_const 0) (clock_from 3000))"
proof -
  have 1: "detectStudents e2e0 env0 (rnd_const (9 / 10)) (clock_from 1000) =
             Some (the (detectStudents e2e0 env0 (rnd_const (9 / 10)) (clock_from 1000)))"
    by (simp add: detect_three)
  have 2: "detectStudents e2e0 env0 (rnd_const 0) (clock_from 3000) =
             Some (the (detectStudents e2e0 env0 (rnd_const 0) (clock_from 3000)))"
    by (simp add: detect_one)
  have 3: "0 < length (the (detectStudents e2e0 env0 (rnd_const (9 / 10)) (clock_from 1000)))"
    by (simp add: detect_three)
  have 4: "0 < length (the (detectStudents e2e0 env0 (rnd_const 0) (clock_from 3000)))"
    by (simp add: detect_one)
  from id_by_loop_index [OF 1 2 3 4, of initial] show ?thesis
    by (simp add: detect_one detect_three string_of_nat.simps digit_char_def)
qed

text \<open>
  Claim C2, as stated, fails. In the three-tick session \<^verbatim>\<open>student-2\<close> is in the
  store after the first tick, is gone after the second tick, two seconds later, in
  which only one student is detected, and is back under the same id after the third.
\<close>

theorem stale_subject_counterexample:
  "''student-2'' \<in> set (map id_student (students (run e2e0 [tick1] initial)))
   \<and> ''student-2'' \<notin> set (map id_student (students (run e2e0 [tick1, tick2] initial)))
   \<and> ''student-2'' \<in> set (map id_student (students (run e2e0 [tick1, tick2, tick3] initial)))"
  using ids_session0 by (simp add: session0_def)

text \<open>
  Claim C2, amended. There is no timeout: after a tick that delivers detections the store
  is exactly the array of that tick, so a subject without a detection in the current
  frame is absent from the next snapshot at once; a tick whose callback returns early
  leaves the store as it was. The ids of a delivered array are \<^verbatim>\<open>student-1\<close>,
  \<^verbatim>\<open>student-2\<close>, ... by position, so a detection that arrives after a removal
  takes the id of its position again.
\<close>

theorem snapshot_is_last_batch:
  "students (tick e2e env rnd now st) =
     (case detectStudents e2e env rnd now of None \<Rightarrow> students st | Some ds \<Rightarrow> ds)
   \<and> (\<forall>ds. detectStudents e2e env rnd now = Some ds \<longrightarrow>
         map id_student ds = map (\<lambda>i. ''student-'' @ string_of_nat (i + 1)) [0..<length ds])"
  by (simp add: tick_students detectStudents_ids)

theorem snapshot_is_last_batch_witness:
  "students (tick e2e0 env0 (rnd_const 0) (clock_from 3000) (run e2e0 [tick1] initial)) =
     the (detectStudents e2e0 env0 (rnd_const 0) (clock_from 3000))
   \<and> map id_student (the (detectStudents e2e0 env0 (rnd_const 0) (clock_from 3000))) = [''student-1'']
   \<and> map id_student (students (run e2e0 [tick1] initial)) = [''student-1'', ''student-2'', ''student-3'']"
  using snapshot_is_last_batch [of e2e0 env0 "rnd_const 0" "clock_from 3000" "run e2e0 [tick1] initial"]
  by (simp add: detect_one ids_session0)

section \<open>Current fields and history of a subject\<close>

text \<open>
  Claim C3, as stated, fails. The subject created by a single detection on the empty
  store has a history of length 0, not 1.
\<close>

theorem seeded_history_counterexample:
  "students initial = []
   \<and> length (students (run e2e0 [tick2] initial)) = 1
   \<and> length (history (students (run e2e0 [tick2] initial) ! 0)) \<noteq> 1"
  by (simp add: tick2_def tick_students detect_one initial_def)

text \<open>
  Claim C3, amended. Every subject handed over by the detector has an empty history, so
  there is no most recent history sample. The current emotion, engagement, confidence
  and bounding box of the subject at position \<open>i\<close> equal the corresponding fields
  of the sample appended for it to the session-wide emotion history in the same tick.
\<close>

theorem current_fields_in_log:
  assumes "detectStudents e2e env rnd now = Some ds" and "i < length ds"
  shows "history (ds ! i) = []
       \<and> emotion (emotionHistory (tick e2e env rnd now st) ! (length (emotionHistory st) + i)) =
           currentEmotion (ds ! i)
       \<and> EmotionData.engagement (emotionHistory (tick e2e env rnd now st) ! (length (emotionHistory st) + i)) =
           StudentData.engagement (ds ! i)
       \<and> EmotionData.confidence (emotionHistory (tick e2e env rnd now st) ! (length (emotionHistory st) + i)) =
           StudentData.confidence (ds ! i)
       \<and> EmotionData.boundingBox (emotionHistory (tick e2e env rnd now st) ! (length (emotionHistory st) + i)) =
           StudentData.boundingBox (ds ! i)"
proof -
  from assms have h: "history (ds ! i) = []"
    by (simp add: detectStudents_history)
  from assms have "emotionHistory (tick e2e env rnd now st) ! (length (emotionHistory st) + i) =
      emotionData_of (ds ! i) (now (length ds + i))"
    by (simp add: tick_emotionHistory forEach_append_eq nth_append)
  with h show ?thesis by (simp add: emotionData_of_def)
qed

theorem current_fields_in_log_witness:
  "history (the (detectStudents e2e0 env0 (rnd_const 0) (clock_from 3000)) ! 0) = []
   \<and> length (emotionHistory (run e2e0 [tick1] initial)) = 3
   \<and> emotion (emotionHistory (tick e2e0 env0 (rnd_const 0) (clock_from 3000) (run e2e0 [tick1] initial)) ! 3) = ''happy''
   \<and> currentEmotion (the (detectStudents e2e0 env0 (rnd_const 0) (clock_from 3000)) ! 0) = ''happy''"
proof -
  have 1: "detectStudents e2e0 env0 (rnd_const 0) (clock_from 3000) =
             Some (the (detectStudents e2e0 env0 (rnd_const 0) (clock_from 3000)))"
    by (simp add: detect_one)
  have 2: "0 < length (the (detectStudents e2e0 env0 (rnd_const 0) (clock_from 3000)))"
    by (simp add: detect_one)
  have 3: "length (emotionHistory (run e2e0 [tick1] initial)) = 3"
    using arg_cong [OF timestamps_session0(1), of length] by simp
  from current_fields_in_log [OF 1 2, of "run e2e0 [tick1] initial"] 3 show ?thesis
    by (simp add: detect_one)
qed

section \<open>The page on an empty session\<close>



end
